theory Spec2Isabelle
  imports Complex_Main
begin

section \<open>Floating-point values\<close>

text \<open>
  The program computes on numpy \<open>float64\<close> arrays. A value is modelled as either a
  finite number, one of the two infinities, or NaN. The special values follow IEEE 754
  as numpy implements it (numpy scalar and array arithmetic never raises: division by
  zero and invalid operations give an infinity or NaN). An arithmetic result whose
  magnitude reaches \<open>2 ^ 1024 - 2 ^ 970\<close>, the least real that rounds to \<open>2 ^ 1024\<close>,
  overflows to an infinity. A result in range is kept as the exact real: the rounding
  to 53 bits and underflow are not modelled, and there is one zero.
\<close>

datatype fval = Fin real | PInf | NInf | NaN

fun isnan :: "fval \<Rightarrow> bool" where
  "isnan NaN = True"
| "isnan _ = False"

fun isinf :: "fval \<Rightarrow> bool" where
  "isinf PInf = True"
| "isinf NInf = True"
| "isinf _ = False"


fun the_fin :: "fval \<Rightarrow> real" where
  "the_fin (Fin x) = x"
| "the_fin _ = 0"

text \<open>An infinity with the sign of a non-zero real.\<close>

definition inf_of_sign :: "real \<Rightarrow> fval" where
  "inf_of_sign s = (if 0 < s then PInf else NInf)"

text \<open>The float for the exact result \<open>x\<close> of an operation: \<open>x\<close> itself, or an infinity.\<close>

definition float_bound :: real where
  "float_bound = 2 ^ 1024 - 2 ^ 970"

definition fin :: "real \<Rightarrow> fval" where
  "fin x = (if float_bound \<le> \<bar>x\<bar> then inf_of_sign x else Fin x)"

fun fneg :: "fval \<Rightarrow> fval" where
  "fneg (Fin x) = Fin (- x)"
| "fneg PInf = NInf"
| "fneg NInf = PInf"
| "fneg NaN = NaN"

fun fadd :: "fval \<Rightarrow> fval \<Rightarrow> fval" where
  "fadd NaN _ = NaN"
| "fadd _ NaN = NaN"
| "fadd (Fin x) (Fin y) = fin (x + y)"
| "fadd PInf NInf = NaN"
| "fadd NInf PInf = NaN"
| "fadd PInf _ = PInf"
| "fadd _ PInf = PInf"
| "fadd NInf _ = NInf"
| "fadd _ NInf = NInf"

definition fsub :: "fval \<Rightarrow> fval \<Rightarrow> fval" where
  "fsub x y = fadd x (fneg y)"

fun fmul :: "fval \<Rightarrow> fval \<Rightarrow> fval" where
  "fmul NaN _ = NaN"
| "fmul _ NaN = NaN"
| "fmul (Fin x) (Fin y) = fin (x * y)"
| "fmul (Fin x) PInf = (if x = 0 then NaN else inf_of_sign x)"
| "fmul (Fin x) NInf = (if x = 0 then NaN else inf_of_sign (- x))"
| "fmul PInf (Fin y) = (if y = 0 then NaN else inf_of_sign y)"
| "fmul NInf (Fin y) = (if y = 0 then NaN else inf_of_sign (- y))"
| "fmul PInf PInf = PInf"
| "fmul NInf NInf = PInf"
| "fmul PInf NInf = NInf"
| "fmul NInf PInf = NInf"

fun fdiv :: "fval \<Rightarrow> fval \<Rightarrow> fval" where
  "fdiv NaN _ = NaN"
| "fdiv _ NaN = NaN"
| "fdiv (Fin x) (Fin y) =
     (if y = 0 then (if x = 0 then NaN else inf_of_sign x) else fin (x / y))"
| "fdiv (Fin x) PInf = Fin 0"
| "fdiv (Fin x) NInf = Fin 0"
| "fdiv PInf (Fin y) = (if 0 \<le> y then PInf else NInf)"
| "fdiv NInf (Fin y) = (if 0 \<le> y then NInf else PInf)"
| "fdiv PInf _ = NaN"
| "fdiv NInf _ = NaN"

text \<open>Comparison \<open>x < y\<close>: false as soon as one side is NaN.\<close>

fun flt :: "fval \<Rightarrow> fval \<Rightarrow> bool" where
  "flt NaN _ = False"
| "flt _ NaN = False"
| "flt (Fin x) (Fin y) = (x < y)"
| "flt NInf NInf = False"
| "flt NInf _ = True"
| "flt _ NInf = False"
| "flt PInf _ = False"
| "flt _ PInf = True"

definition fgt :: "fval \<Rightarrow> fval \<Rightarrow> bool" where
  "fgt x y = flt y x"

text \<open>\<open>np.maximum\<close> and \<open>np.minimum\<close>: element-wise, NaN if either argument is NaN.\<close>

definition np_maximum :: "fval \<Rightarrow> fval \<Rightarrow> fval" where
  "np_maximum x y = (if isnan x \<or> isnan y then NaN else if flt x y then y else x)"

definition np_minimum :: "fval \<Rightarrow> fval \<Rightarrow> fval" where
  "np_minimum x y = (if isnan x \<or> isnan y then NaN else if flt y x then y else x)"

text \<open>\<open>np.log\<close>: \<open>log 0 = -inf\<close>, the log of a negative number or of \<open>-inf\<close> is NaN.\<close>

fun np_log :: "fval \<Rightarrow> fval" where
  "np_log NaN = NaN"
| "np_log PInf = PInf"
| "np_log NInf = NaN"
| "np_log (Fin x) = (if 0 < x then Fin (ln x) else if x = 0 then NInf else NaN)"

fun np_abs :: "fval \<Rightarrow> fval" where
  "np_abs NaN = NaN"
| "np_abs PInf = PInf"
| "np_abs NInf = PInf"
| "np_abs (Fin x) = Fin \<bar>x\<bar>"

fun np_sign :: "fval \<Rightarrow> fval" where
  "np_sign NaN = NaN"
| "np_sign PInf = Fin 1"
| "np_sign NInf = Fin (- 1)"
| "np_sign (Fin x) = Fin (sgn x)"

fun np_sqrt :: "fval \<Rightarrow> fval" where
  "np_sqrt NaN = NaN"
| "np_sqrt PInf = PInf"
| "np_sqrt NInf = NaN"
| "np_sqrt (Fin x) = (if 0 \<le> x then Fin (sqrt x) else NaN)"

text \<open>
  The power \<open>x ** y\<close> of two floats, with the special cases of the C function \<open>pow\<close>:
  \<open>x ** 0 = 1\<close> and \<open>1 ** y = 1\<close> even for NaN, a negative base with a
  non-integer exponent is NaN.
\<close>

definition odd_integer :: "real \<Rightarrow> bool" where
  "odd_integer y = (y = of_int \<lfloor>y\<rfloor> \<and> odd \<lfloor>y\<rfloor>)"

definition pow_fin :: "real \<Rightarrow> real \<Rightarrow> fval" where
  "pow_fin x y =
     (if 0 < x then fin (x powr y)
      else if x = 0 then (if 0 < y then Fin 0 else PInf)
      else if y = of_int \<lfloor>y\<rfloor>
        then fin ((if odd \<lfloor>y\<rfloor> then - 1 else 1) * (\<bar>x\<bar> powr y))
      else NaN)"

fun pow_cases :: "fval \<Rightarrow> fval \<Rightarrow> fval" where
  "pow_cases NaN _ = NaN"
| "pow_cases _ NaN = NaN"
| "pow_cases (Fin x) (Fin y) = pow_fin x y"
| "pow_cases (Fin x) PInf = (if \<bar>x\<bar> < 1 then Fin 0 else if \<bar>x\<bar> = 1 then Fin 1 else PInf)"
| "pow_cases (Fin x) NInf = (if \<bar>x\<bar> < 1 then PInf else if \<bar>x\<bar> = 1 then Fin 1 else Fin 0)"
| "pow_cases PInf (Fin y) = (if 0 < y then PInf else Fin 0)"
| "pow_cases PInf PInf = PInf"
| "pow_cases PInf NInf = Fin 0"
| "pow_cases NInf (Fin y) =
     (if 0 < y then (if odd_integer y then NInf else PInf) else Fin 0)"
| "pow_cases NInf PInf = PInf"
| "pow_cases NInf NInf = Fin 0"

definition fpow :: "fval \<Rightarrow> fval \<Rightarrow> fval" where
  "fpow x y = (if y = Fin 0 \<or> x = Fin 1 then Fin 1 else pow_cases x y)"

section \<open>The transform engine\<close>

text \<open>
  The attributes of a \<open>FractalHarmonicTransform\<close> instance, as \<open>__init__\<close> of
  \<open>fht_validation_suite.py\<close> sets them.
\<close>

record fht =
  phi :: fval
  alpha :: fval
  beta :: fval
  epsilon :: fval
  stability_weight :: fval
  breakthrough_weight :: fval

datatype error = ValueError | OverflowError | TypeError

definition golden_ratio :: real where
  "golden_ratio = (1 + sqrt 5) / 2"

text \<open>
  \<open>__init__(alpha=None, beta=1.0, epsilon=1e-12)\<close>. The body has no \<open>raise\<close> and
  no check of its arguments; the result type still has the error branch so that
  the constructor's failure behaviour can be stated.
\<close>

definition init :: "fval option \<Rightarrow> fval \<Rightarrow> fval \<Rightarrow> error + fht" where
  "init alpha_arg beta_arg epsilon_arg =
     Inr \<lparr> phi = Fin golden_ratio,
           alpha = (case alpha_arg of Some a \<Rightarrow> a | None \<Rightarrow> Fin golden_ratio),
           beta = beta_arg,
           epsilon = epsilon_arg,
           stability_weight = Fin (79 / 100),
           breakthrough_weight = Fin (21 / 100) \<rparr>"

text \<open>The instance built by \<open>FractalHarmonicTransform()\<close>, all arguments defaulted.\<close>

definition default_fht :: fht where
  "default_fht =
     \<lparr> phi = Fin golden_ratio, alpha = Fin golden_ratio, beta = Fin 1,
       epsilon = Fin (1 / 10 ^ 12),
       stability_weight = Fin (79 / 100), breakthrough_weight = Fin (21 / 100) \<rparr>"

text \<open>
  The element-wise steps of \<open>transform\<close> on a \<open>float64\<close> array, in the order of the
  source (from \<open>np.maximum\<close> on). The conversion of an argument that is not an array is
  in \<open>transform_call\<close> below.
\<close>

definition clamped :: "fht \<Rightarrow> fval \<Rightarrow> fval" where
  "clamped p x = np_maximum x (epsilon p)"

definition log_term :: "fht \<Rightarrow> fval \<Rightarrow> fval" where
  "log_term p x = np_log (fadd (clamped p x) (epsilon p))"

definition phi_power :: "fht \<Rightarrow> fval \<Rightarrow> fval" where
  "phi_power p x = fpow (np_abs (log_term p x)) (phi p)"

definition sign_term :: "fht \<Rightarrow> fval \<Rightarrow> fval" where
  "sign_term p x = np_sign (log_term p x)"

definition raw_result :: "fht \<Rightarrow> fval \<Rightarrow> fval \<Rightarrow> fval" where
  "raw_result p amplification x =
     fadd (fmul (fmul (fmul (alpha p) (phi_power p x)) (sign_term p x)) amplification)
          (beta p)"

definition edge_case :: "fht \<Rightarrow> fval \<Rightarrow> fval" where
  "edge_case p r = (if isnan r \<or> isinf r then beta p else r)"

definition transform :: "fht \<Rightarrow> fval list \<Rightarrow> fval \<Rightarrow> fval list" where
  "transform p data amplification =
     map (\<lambda>x. edge_case p (raw_result p amplification x)) data"

text \<open>
  The second implementation, class \<open>FractalHarmonicTransform\<close> of
  \<open>mathematical_derivations.py\<close>: fixed parameters, no amplification argument.
\<close>

definition md_fht :: fht where
  "md_fht =
     \<lparr> phi = Fin ((1 + sqrt 5) / 2), alpha = Fin ((1 + sqrt 5) / 2), beta = Fin 1,
       epsilon = Fin (1 / 10 ^ 12),
       stability_weight = Fin (79 / 100), breakthrough_weight = Fin (21 / 100) \<rparr>"

definition md_transform :: "fval list \<Rightarrow> fval list" where
  "md_transform data =
     map (\<lambda>x.
       let d = np_maximum x (epsilon md_fht);
           lt = np_log (fadd d (epsilon md_fht));
           pp = fpow (np_abs lt) (phi md_fht);
           sg = np_sign lt;
           r = fadd (fmul (fmul (alpha md_fht) pp) sg) (beta md_fht)
       in if isnan r \<or> isinf r then beta md_fht else r) data"

subsection \<open>Arguments that are not arrays\<close>

text \<open>
  The argument of a call is a \<open>float64\<close> array or a Python list of numbers. Both
  implementations start with \<open>if not isinstance(data, np.ndarray)\<close>; the suite's then
  calls \<open>np.array(data)\<close>, the other \<open>np.array(data, dtype=float)\<close>.
\<close>

datatype py_num = PyInt int | PyFloat fval

datatype py_data = NdArray "fval list" | PyList "py_num list"

text \<open>
  \<open>np.array(xs)\<close> finds the element type itself: a Python integer is an \<open>int64\<close> or a
  \<open>uint64\<close> when it fits and a Python object otherwise. A list whose integers all fit
  becomes a numeric array (\<open>int64\<close>, \<open>uint64\<close> or \<open>float64\<close>), which
  \<open>np.maximum(data, self.epsilon)\<close> turns into a \<open>float64\<close> array; any other list becomes
  an array of Python objects.
\<close>

fun in_int_range :: "py_num \<Rightarrow> bool" where
  "in_int_range (PyInt i) = (- (2 ^ 63) \<le> i \<and> i < 2 ^ 64)"
| "in_int_range (PyFloat f) = True"

text \<open>\<open>float(x)\<close>, where it does not overflow.\<close>

fun as_float :: "py_num \<Rightarrow> fval" where
  "as_float (PyInt i) = Fin (of_int i)"
| "as_float (PyFloat f) = f"

text \<open>A Python integer too large for a \<open>float64\<close>, of either sign, or positive.\<close>

fun too_large :: "py_num \<Rightarrow> bool" where
  "too_large (PyInt i) = (2 ^ 1024 - 2 ^ 970 \<le> \<bar>i\<bar>)"
| "too_large (PyFloat f) = False"

fun too_large_positive :: "py_num \<Rightarrow> bool" where
  "too_large_positive (PyInt i) = (2 ^ 1024 - 2 ^ 970 \<le> i)"
| "too_large_positive (PyFloat f) = False"

text \<open>
  \<open>transform(data, amplification)\<close> of \<open>fht_validation_suite.py\<close>, lines 73 to 89. On an
  array of Python objects \<open>np.maximum\<close> compares element by element and keeps the
  integers above \<open>epsilon\<close> as integers; \<open>data + self.epsilon\<close> then raises
  \<open>OverflowError\<close> on an integer too large for a float, and otherwise \<open>np.log\<close> raises
  \<open>TypeError\<close>, since a Python float has no \<open>log\<close> method.
\<close>

definition transform_call :: "fht \<Rightarrow> py_data \<Rightarrow> fval \<Rightarrow> error + fval list" where
  "transform_call p data amplification =
     (case data of
        NdArray a \<Rightarrow> Inr (transform p a amplification)
      | PyList xs \<Rightarrow>
          if list_all in_int_range xs
          then Inr (transform p (map as_float xs) amplification)
          else if list_ex too_large_positive xs then Inl OverflowError
          else Inl TypeError)"

text \<open>
  \<open>transform(data)\<close> of \<open>mathematical_derivations.py\<close>, lines 357 to 368:
  \<open>np.array(data, dtype=float)\<close> converts every element with \<open>float\<close> and raises
  \<open>OverflowError\<close> on an integer too large for a float.
\<close>

definition md_transform_call :: "py_data \<Rightarrow> error + fval list" where
  "md_transform_call data =
     (case data of
        NdArray a \<Rightarrow> Inr (md_transform a)
      | PyList xs \<Rightarrow>
          if list_ex too_large xs then Inl OverflowError
          else Inr (md_transform (map as_float xs)))"

section \<open>numpy reductions\<close>

text \<open>
  The numpy routines the score calculator and the validator call, on one-dimensional
  arrays. \<open>np.sum\<close> of an empty array is 0; \<open>np.mean\<close> and \<open>np.std\<close> divide by
  the length, so an empty array gives NaN (with a warning, not an exception);
  \<open>np.min\<close> and \<open>np.max\<close> raise \<open>ValueError\<close> on an empty array.
\<close>

definition np_sum :: "fval list \<Rightarrow> fval" where
  "np_sum xs = foldl fadd (Fin 0) xs"

definition np_mean :: "fval list \<Rightarrow> fval" where
  "np_mean xs = fdiv (np_sum xs) (Fin (real (length xs)))"

definition np_std :: "fval list \<Rightarrow> fval" where
  "np_std xs =
     (let m = np_mean xs;
          sq = map (\<lambda>x. fmul (fsub x m) (fsub x m)) xs
      in np_sqrt (fdiv (np_sum sq) (Fin (real (length xs)))))"

definition np_min :: "fval list \<Rightarrow> error + fval" where
  "np_min xs = (case xs of [] \<Rightarrow> Inl ValueError | x # r \<Rightarrow> Inr (foldl np_minimum x r))"

definition np_max :: "fval list \<Rightarrow> error + fval" where
  "np_max xs = (case xs of [] \<Rightarrow> Inl ValueError | x # r \<Rightarrow> Inr (foldl np_maximum x r))"

definition np_clip :: "fval \<Rightarrow> fval \<Rightarrow> fval \<Rightarrow> fval" where
  "np_clip v lo hi = np_minimum (np_maximum v lo) hi"

definition np_dot :: "fval list \<Rightarrow> fval list \<Rightarrow> fval" where
  "np_dot xs ys = np_sum (map (\<lambda>(a, b). fmul a b) (zip xs ys))"

text \<open>
  Entry \<open>[0, 1]\<close> of \<open>np.corrcoef(x, y)\<close>. numpy stacks the two arrays (a
  \<open>ValueError\<close> when their lengths differ), subtracts the row means, forms the
  covariance matrix \<open>c\<close> with the factor \<open>1 / (n - 1)\<close>, divides \<open>c\<close> by the square
  roots of its diagonal, first by rows then by columns, and clips the result to
  \<open>[-1, 1]\<close>.
\<close>

definition np_corrcoef :: "fval list \<Rightarrow> fval list \<Rightarrow> error + fval" where
  "np_corrcoef x y =
     (if length x \<noteq> length y then Inl ValueError
      else
        let mx = np_mean x;
            my = np_mean y;
            dx = map (\<lambda>v. fsub v mx) x;
            dy = map (\<lambda>v. fsub v my) y;
            fact = (if length x \<le> 1 then Fin 0 else Fin (real (length x) - 1));
            scale = fdiv (Fin 1) fact;
            c00 = fmul (np_dot dx dx) scale;
            c01 = fmul (np_dot dx dy) scale;
            c11 = fmul (np_dot dy dy) scale
        in Inr (np_clip (fdiv (fdiv c01 (np_sqrt c00)) (np_sqrt c11)) (Fin (- 1)) (Fin 1)))"

text \<open>The builtin \<open>min(a, b)\<close> of Python: \<open>b\<close> if \<open>b < a\<close>, else \<open>a\<close>.\<close>

definition py_min :: "fval \<Rightarrow> fval \<Rightarrow> fval" where
  "py_min a b = (if flt b a then b else a)"

section \<open>The score calculator\<close>

record score =
  consciousness_score :: fval
  stability_score :: fval
  breakthrough_score :: fval
  correlation :: fval

definition calculate_consciousness_score ::
  "fht \<Rightarrow> fval list \<Rightarrow> fval list \<Rightarrow> error + score" where
  "calculate_consciousness_score p original transformed =
     (let stability = fdiv (np_sum (map np_abs transformed))
                           (Fin (real (length original * 4)));
          breakthrough =
            (if fgt (np_mean (map np_abs transformed)) (Fin 0)
             then fdiv (np_std transformed) (np_mean (map np_abs transformed))
             else Fin 0);
          consciousness = fadd (fmul (stability_weight p) stability)
                               (fmul (breakthrough_weight p) breakthrough)
      in case (if 1 < length original then np_corrcoef original transformed
               else Inr (Fin 0)) of
           Inl e \<Rightarrow> Inl e
         | Inr c \<Rightarrow>
             Inr \<lparr> consciousness_score = py_min consciousness (Fin 1),
                   stability_score = stability,
                   breakthrough_score = breakthrough,
                   correlation = c \<rparr>)"

section \<open>The validation suite\<close>

text \<open>
  The routines of scipy and of numpy's random generator that the suite calls, and the
  readings of the wall clock, are inputs of the model: the three statistical tests
  return a statistic and a p-value or raise, \<open>random_uniform n\<close> is the array that
  \<open>np.random.seed(42); np.random.uniform(0, 100, n)\<close> returns, \<open>time_reading k\<close> is
  the value of the \<open>k\<close>-th call of \<open>time.time()\<close>.
\<close>

record environment =
  pearsonr :: "fval list \<Rightarrow> fval list \<Rightarrow> error + fval \<times> fval"
  spearmanr :: "fval list \<Rightarrow> fval list \<Rightarrow> error + fval \<times> fval"
  ks_2samp :: "fval list \<Rightarrow> fval list \<Rightarrow> error + fval \<times> fval"
  random_uniform :: "nat \<Rightarrow> fval list"
  time_reading :: "nat \<Rightarrow> fval"

record statistical_tests =
  pearson_correlation :: fval
  pearson_p_value :: fval
  spearman_correlation :: fval
  spearman_p_value :: fval
  ks_statistic :: fval
  ks_p_value :: fval

record data_characteristics =
  data_mean :: fval
  data_std :: fval
  data_min :: fval
  data_max :: fval
  data_range :: fval

text \<open>
  The dictionary \<open>validate_transformation\<close> builds. The keys \<open>pattern\<close> and \<open>size\<close>
  are absent until \<open>run_comprehensive_validation\<close> adds them.
\<close>

record validation_record =
  dataset_size :: nat
  processing_time :: fval
  metrics :: score
  tests :: statistical_tests
  characteristics :: data_characteristics
  pattern_key :: "string option"
  size_key :: "nat option"

record validation_suite =
  fht_inst :: fht
  results :: "validation_record list"

text \<open>\<open>ValidationSuite()\<close>.\<close>

definition new_suite :: validation_suite where
  "new_suite = \<lparr> fht_inst = default_fht, results = [] \<rparr>"

text \<open>
  \<open>validate_transformation\<close>. The state after the call is returned whether or not
  the call raises. \<open>start_time\<close> and \<open>end_time\<close> are the two clock readings.
\<close>

definition validate_transformation ::
  "environment \<Rightarrow> fval \<Rightarrow> fval \<Rightarrow> fval list \<Rightarrow> validation_suite
     \<Rightarrow> (error + validation_record) \<times> validation_suite" where
  "validate_transformation env start_time end_time data s =
     (let transformed = transform (fht_inst s) data (Fin 1) in
      case calculate_consciousness_score (fht_inst s) data transformed of
        Inl e \<Rightarrow> (Inl e, s)
      | Inr m \<Rightarrow>
      (case pearsonr env data transformed of
        Inl e \<Rightarrow> (Inl e, s)
      | Inr (pearson_corr, pearson_p) \<Rightarrow>
      (case spearmanr env data transformed of
        Inl e \<Rightarrow> (Inl e, s)
      | Inr (spearman_corr, spearman_p) \<Rightarrow>
      (case ks_2samp env data transformed of
        Inl e \<Rightarrow> (Inl e, s)
      | Inr (ks_stat, ks_p) \<Rightarrow>
      (case np_min data of
        Inl e \<Rightarrow> (Inl e, s)
      | Inr mn \<Rightarrow>
      (case np_max data of
        Inl e \<Rightarrow> (Inl e, s)
      | Inr mx \<Rightarrow>
          let result =
            \<lparr> dataset_size = length data,
              processing_time = fsub end_time start_time,
              metrics = m,
              tests = \<lparr> pearson_correlation = pearson_corr, pearson_p_value = pearson_p,
                        spearman_correlation = spearman_corr, spearman_p_value = spearman_p,
                        ks_statistic = ks_stat, ks_p_value = ks_p \<rparr>,
              characteristics = \<lparr> data_mean = np_mean data, data_std = np_std data,
                                  data_min = mn, data_max = mx, data_range = fsub mx mn \<rparr>,
              pattern_key = None,
              size_key = None \<rparr>
          in (Inr result, s\<lparr>results := results s @ [result]\<rparr>)))))))"


subsection \<open>Synthetic data\<close>

text \<open>
  The loop \<open>while len(fib) < size: fib.append(fib[-1] + fib[-2])\<close> on Python's
  unbounded integers.
\<close>

function fib_loop :: "nat \<Rightarrow> int list \<Rightarrow> int list" where
  "fib_loop sz fib =
     (if length fib < sz
      then fib_loop sz (fib @ [fib ! (length fib - 1) + fib ! (length fib - 2)])
      else fib)"
  by pat_completeness auto
termination
  by (relation "measure (\<lambda>(sz, fib). sz - length fib)") auto

declare fib_loop.simps [simp del]

text \<open>
  \<open>np.array(xs, dtype=float)\<close> on a list of Python integers: an integer that rounds
  to a magnitude of \<open>2 ^ 1024\<close> or more has no \<open>float64\<close> value and the conversion
  raises \<open>OverflowError\<close>.
\<close>

definition float_array :: "int list \<Rightarrow> error + fval list" where
  "float_array xs =
     (if list_ex (\<lambda>x. 2 ^ 1024 - 2 ^ 970 \<le> \<bar>x\<bar>) xs then Inl OverflowError
      else Inr (map (\<lambda>x. Fin (of_int x)) xs))"

text \<open>\<open>range(a, b, step)\<close> for a positive step.\<close>

definition py_range :: "nat \<Rightarrow> nat \<Rightarrow> nat \<Rightarrow> nat list" where
  "py_range a b step = map (\<lambda>k. a + k * step) [0..<(b - a + step - 1) div step]"

definition upper_bound :: "nat \<Rightarrow> nat" where
  "upper_bound n =
     (if 6 < n then nat \<lfloor>real n * ln (real n) + real n * ln (ln (real n))\<rfloor> else 20)"

definition generate_primes :: "nat \<Rightarrow> nat list" where
  "generate_primes n =
     (if n = 0 then []
      else
        let ub = upper_bound n;
            sieve0 = (replicate (ub + 1) True)[0 := False, 1 := False];
            sieve = fold (\<lambda>i sv.
                        if sv ! i
                        then fold (\<lambda>j sv'. sv'[j := False]) (py_range (i * i) (ub + 1) i) sv
                        else sv)
                      [2..<nat \<lfloor>sqrt (real ub)\<rfloor> + 1] sieve0
        in take n (filter (\<lambda>i. sieve ! i) [0..<ub + 1]))"

definition generate_synthetic_data ::
  "environment \<Rightarrow> validation_suite \<Rightarrow> nat \<Rightarrow> string \<Rightarrow> error + fval list" where
  "generate_synthetic_data env s sz pattern_type =
     (if pattern_type = ''fibonacci'' then
        float_array (take sz (fib_loop sz [1, 1]))
      else if pattern_type = ''golden_ratio'' then
        Inr (map (\<lambda>i. fpow (phi (fht_inst s)) (Fin (real i))) [0..<sz])
      else if pattern_type = ''prime_modulo'' then
        Inr (map (\<lambda>p. Fin (real (p mod 100))) (take sz (generate_primes (sz * 2))))
      else if pattern_type = ''random'' then
        Inr (random_uniform env sz)
      else
        Inr (if sz = 1 then [Fin 1]
             else map (\<lambda>i. Fin (1 + real i * (99 / (real sz - 1)))) [0..<sz]))"

subsection \<open>The orchestrator\<close>

definition patterns :: "string list" where
  "patterns = [''fibonacci'', ''golden_ratio'', ''prime_modulo'', ''random'']"

text \<open>
  The inner loop of \<open>run_comprehensive_validation\<close>, over the sizes of one pattern.
  There is no \<open>try\<close> in the source: an exception of the generator or of the validator
  leaves the loop. The dictionary that \<open>validate_transformation\<close> returns is the
  object it appended to \<open>self.results\<close>, so the two keys set afterwards show in the
  stored record too. \<open>k\<close> counts the clock readings taken so far.
\<close>

fun sizes_loop ::
  "environment \<Rightarrow> string \<Rightarrow> nat list \<Rightarrow> validation_record list \<Rightarrow> nat \<Rightarrow> validation_suite
     \<Rightarrow> (error + validation_record list \<times> nat) \<times> validation_suite" where
  "sizes_loop env pattern [] pattern_results k s = (Inr (pattern_results, k), s)"
| "sizes_loop env pattern (sz # rest) pattern_results k s =
     (case generate_synthetic_data env s sz pattern of
        Inl e \<Rightarrow> (Inl e, s)
      | Inr data \<Rightarrow>
          (case validate_transformation env (time_reading env k) (time_reading env (k + 1))
                  data s of
             (Inl e, s') \<Rightarrow> (Inl e, s')
           | (Inr result, s') \<Rightarrow>
               let tagged = result\<lparr>pattern_key := Some pattern, size_key := Some sz\<rparr>;
                   s'' = s'\<lparr>results := butlast (results s') @ [tagged]\<rparr>
               in sizes_loop env pattern rest (pattern_results @ [tagged]) (k + 2) s''))"

fun patterns_loop ::
  "environment \<Rightarrow> string list \<Rightarrow> nat list \<Rightarrow> (string \<times> validation_record list) list
     \<Rightarrow> nat \<Rightarrow> validation_suite
     \<Rightarrow> (error + (string \<times> validation_record list) list) \<times> validation_suite" where
  "patterns_loop env [] sizes comprehensive_results k s = (Inr comprehensive_results, s)"
| "patterns_loop env (pattern # rest) sizes comprehensive_results k s =
     (case sizes_loop env pattern sizes [] k s of
        (Inl e, s') \<Rightarrow> (Inl e, s')
      | (Inr (pattern_results, k'), s') \<Rightarrow>
          patterns_loop env rest sizes
            (comprehensive_results @ [(pattern, pattern_results)]) k' s')"

definition run_comprehensive_validation ::
  "environment \<Rightarrow> nat list option \<Rightarrow> nat \<Rightarrow> validation_suite
     \<Rightarrow> (error + (string \<times> validation_record list) list) \<times> validation_suite" where
  "run_comprehensive_validation env sizes k s =
     patterns_loop env patterns
       (case sizes of None \<Rightarrow> [1000, 10000, 100000] | Some ss \<Rightarrow> ss) [] k s"

text \<open>
  One environment, to instantiate the theorems at concrete inputs. \<open>pearsonr\<close> and
  \<open>ks_2samp\<close> raise \<open>ValueError\<close> where scipy documents it (fewer than two points,
  an empty sample); the numbers returned otherwise are placeholders.
\<close>

definition sample_env :: environment where
  "sample_env =
     \<lparr> pearsonr = (\<lambda>x y. if length x < 2 then Inl ValueError else Inr (Fin 0, Fin 1)),
       spearmanr = (\<lambda>x y. Inr (Fin 0, Fin 1)),
       ks_2samp = (\<lambda>x y. if x = [] \<or> y = [] then Inl ValueError else Inr (Fin 1, Fin 0)),
       random_uniform = (\<lambda>n. replicate n (Fin 50)),
       time_reading = (\<lambda>k. Fin (real k)) \<rparr>"

section \<open>Auxiliary notions for the proofs\<close>

text \<open>A value that an arithmetic operation can return: special, or finite and in range.\<close>

fun in_range :: "fval \<Rightarrow> bool" where
  "in_range (Fin x) = (\<bar>x\<bar> < float_bound)"
| "in_range _ = True"

text \<open>
  The invariant of the Fibonacci loop: at least two elements, non-decreasing, and the
  element at index \<open>i\<close> is at least \<open>2 ^ (i div 2)\<close>.
\<close>

definition fib_inv :: "int list \<Rightarrow> bool" where
  "fib_inv fib =
     (2 \<le> length fib \<and> (\<forall>i < length fib. 2 ^ (i div 2) \<le> fib ! i) \<and>
      (\<forall>i. Suc i < length fib \<longrightarrow> fib ! i \<le> fib ! Suc i))"

text \<open>
  A (pattern, size) pair fails when its generation raises or the validation of the
  generated dataset raises. Whether \<open>validate_transformation\<close> raises depends neither
  on the clock readings nor on the records stored so far.
\<close>

definition pair_fails :: "environment \<Rightarrow> validation_suite \<Rightarrow> nat \<Rightarrow> string \<Rightarrow> bool" where
  "pair_fails env s sz pattern =
     (case generate_synthetic_data env s sz pattern of
        Inl e \<Rightarrow> True
      | Inr data \<Rightarrow> isl (fst (validate_transformation env (Fin 0) (Fin 0) data s)))"

section \<open>The transform engine: proofs\<close>


lemma float_bound_large: "2 ^ 1000 < float_bound"
  by (simp add: float_bound_def)

lemma fin_id: "\<bar>x\<bar> < float_bound \<Longrightarrow> fin x = Fin x"
  by (simp add: fin_def)

lemma fin_small: "\<bar>x\<bar> \<le> 2 ^ 1000 \<Longrightarrow> fin x = Fin x"
  using float_bound_large by (intro fin_id) linarith

lemma fin_in_range: "in_range (fin x)"
  by (simp add: fin_def inf_of_sign_def)

lemma fmul_in_range: "in_range (fmul a b)"
  by (cases a; cases b) (simp_all add: fin_in_range inf_of_sign_def)

lemma fmul_one_right: "in_range x \<Longrightarrow> fmul x (Fin 1) = x"
  by (cases x) (simp_all add: inf_of_sign_def fin_id)

lemma fmul_fmul_one: "fmul (fmul a b) (Fin 1) = fmul a b"
  by (rule fmul_one_right) (rule fmul_in_range)


lemma golden_ratio_pos: "0 < golden_ratio"
  unfolding golden_ratio_def by (simp add: add_pos_nonneg)

lemma golden_ratio_gt1: "1 < golden_ratio"
  unfolding golden_ratio_def by simp



lemma transform_agrees_with_md_transform:
  "transform default_fht data (Fin 1) = md_transform data"
  by (simp add: transform_def md_transform_def raw_result_def edge_case_def phi_power_def
      sign_term_def log_term_def clamped_def fmul_fmul_one default_fht_def md_fht_def
      golden_ratio_def Let_def)

lemma in_range_not_too_large: "in_int_range x \<Longrightarrow> \<not> too_large x"
proof (cases x)
  case (PyInt i)
  assume "in_int_range x"
  with PyInt have "\<bar>i\<bar> \<le> 2 ^ 64" by (simp add: abs_le_iff)
  moreover have "(2::int) ^ 64 < 2 ^ 1024 - 2 ^ 970" by simp
  ultimately show ?thesis using PyInt by simp
next
  case (PyFloat f)
  then show ?thesis by simp
qed

lemma in_range_list_not_too_large: "list_all in_int_range xs \<Longrightarrow> \<not> list_ex too_large xs"
  by (induction xs) (auto dest: in_range_not_too_large)

text \<open>
  Claim C9, as stated, fails: on the Python list \<open>[2 ** 70, 3]\<close> the suite's \<open>transform\<close>
  with amplification 1.0 raises \<open>TypeError\<close> (\<open>np.array\<close> makes an array of Python
  objects), while the one of \<open>mathematical_derivations.py\<close> returns a sequence.
\<close>

theorem transform_call_agrees_counterexample:
  "transform_call default_fht (PyList [PyInt (2 ^ 70), PyInt 3]) (Fin 1) = Inl TypeError \<and>
   md_transform_call (PyList [PyInt (2 ^ 70), PyInt 3]) =
     Inr (md_transform [Fin (2 ^ 70), Fin 3])"
  by (simp add: transform_call_def md_transform_call_def)

text \<open>
  Claim C9, amended. With the default parameters and amplification 1.0 the two
  implementations of \<open>transform\<close> return the same sequence for every \<open>float64\<close> array,
  and for every Python list of numbers whose integers all lie in the range from
  \<open>- 2 ** 63\<close> to \<open>2 ** 64 - 1\<close>. For a list with an integer outside this range the
  suite's \<open>transform\<close> raises.
\<close>

theorem transform_call_agrees:
  "transform_call default_fht (NdArray a) (Fin 1) = md_transform_call (NdArray a) \<and>
   (list_all in_int_range xs \<longrightarrow>
      transform_call default_fht (PyList xs) (Fin 1) = md_transform_call (PyList xs)) \<and>
   (\<not> list_all in_int_range xs \<longrightarrow> isl (transform_call default_fht (PyList xs) (Fin 1)))"
  by (simp add: transform_call_def md_transform_call_def transform_agrees_with_md_transform
      in_range_list_not_too_large)

theorem transform_call_agrees_witness:
  "list_all in_int_range [PyInt 3, PyFloat (Fin (5 / 2)), PyInt (2 ^ 63)] \<and>
   transform_call default_fht (PyList [PyInt 3, PyFloat (Fin (5 / 2)), PyInt (2 ^ 63)]) (Fin 1) =
     md_transform_call (PyList [PyInt 3, PyFloat (Fin (5 / 2)), PyInt (2 ^ 63)]) \<and>
   \<not> list_all in_int_range [PyInt (- (2 ^ 63) - 1)] \<and>
   isl (transform_call default_fht (PyList [PyInt (- (2 ^ 63) - 1)]) (Fin 1))"
proof -
  have a: "list_all in_int_range [PyInt 3, PyFloat (Fin (5 / 2)), PyInt (2 ^ 63)]" by simp
  have b: "\<not> list_all in_int_range [PyInt (- (2 ^ 63) - 1)]" by simp
  show ?thesis
    using a b
      transform_call_agrees [of "[]" "[PyInt 3, PyFloat (Fin (5 / 2)), PyInt (2 ^ 63)]"]
      transform_call_agrees [of "[]" "[PyInt (- (2 ^ 63) - 1)]"]
    by blast
qed

lemma ln_two_eps_bounds: "0 < ln (2 + 1 / 10 ^ 12 :: real)" "ln (2 + 1 / 10 ^ 12 :: real) < 1"
proof -
  show "0 < ln (2 + 1 / 10 ^ 12 :: real)" by simp
  have "(2 + 1 / 10 ^ 12 :: real) < 1 + 1 + 1\<^sup>2 / 2" by simp
  also have "\<dots> \<le> exp (1::real)" by (rule exp_lower_Taylor_quadratic) simp
  finally show "ln (2 + 1 / 10 ^ 12 :: real) < 1"
    by (subst ln_exp [of 1, symmetric], subst ln_less_cancel_iff) simp_all
qed

lemma log_term_two: "log_term (default_fht\<lparr>alpha := a\<rparr>) (Fin 2) = Fin (ln (2 + 1 / 10 ^ 12))"
  by (simp add: log_term_def clamped_def default_fht_def np_maximum_def fin_small)

lemma fpow_pos:
  "0 < x \<Longrightarrow> x \<noteq> 1 \<Longrightarrow> y \<noteq> 0 \<Longrightarrow> x powr y \<le> 2 ^ 1000 \<Longrightarrow>
   fpow (Fin x) (Fin y) = Fin (x powr y)"
  by (simp add: fpow_def pow_fin_def fin_small)

text \<open>
  Claim C1, as stated, fails: built with \<open>alpha = 1\<close>, the instance raises
  \<open>|log_term|\<close> of the input 2 to the golden ratio, not to its \<open>alpha\<close>.
\<close>
theorem exponent_is_alpha_counterexample:
  "init (Some (Fin 1)) (Fin 1) (Fin (1 / 10 ^ 12)) = Inr (default_fht\<lparr>alpha := Fin 1\<rparr>) \<and>
   phi_power (default_fht\<lparr>alpha := Fin 1\<rparr>) (Fin 2) \<noteq>
     fpow (np_abs (log_term (default_fht\<lparr>alpha := Fin 1\<rparr>) (Fin 2)))
          (alpha (default_fht\<lparr>alpha := Fin 1\<rparr>))"
proof -
  let ?L = "ln (2 + 1 / 10 ^ 12 :: real)"
  have L: "0 < ?L" "?L \<noteq> 1" using ln_two_eps_bounds by simp_all
  have g: "golden_ratio \<noteq> 0" "golden_ratio \<noteq> 1"
    using golden_ratio_gt1 by simp_all
  have "?L powr golden_ratio \<noteq> ?L powr 1"
    using powr_inj [OF L, of golden_ratio 1] g by blast
  moreover have "?L powr golden_ratio \<le> 2 ^ 1000" "?L powr 1 \<le> 2 ^ 1000"
  proof -
    have "?L powr y \<le> 1" if "0 \<le> y" for y
      using ln_two_eps_bounds that by (intro powr_le1) simp_all
    from this [of golden_ratio] this [of 1] golden_ratio_pos
    show "?L powr golden_ratio \<le> 2 ^ 1000" "?L powr 1 \<le> 2 ^ 1000"
      by (simp_all del: powr_one_gt_zero_iff powr_one)
  qed
  ultimately have "fpow (Fin ?L) (Fin golden_ratio) \<noteq> fpow (Fin ?L) (Fin 1)"
    using L g
      fpow_pos [of ?L golden_ratio] fpow_pos [of ?L 1]
    by (simp del: powr_one_gt_zero_iff powr_one)
  then show ?thesis
    using L by (simp add: phi_power_def log_term_two) (simp add: default_fht_def init_def)
qed

text \<open>
  Claim C1, amended. For every instance the constructor builds, whatever \<open>alpha\<close> was
  configured, the power term is \<open>|log_term|\<close> raised to the golden ratio
  \<open>(1 + sqrt 5) / 2\<close>, for every amplification; the configured \<open>alpha\<close> is the
  factor that multiplies the power term.
\<close>
theorem exponent_is_golden_ratio:
  "\<exists>p. init alpha_arg beta_arg epsilon_arg = Inr p \<and>
       alpha p = (case alpha_arg of Some a \<Rightarrow> a | None \<Rightarrow> Fin golden_ratio) \<and>
       (\<forall>x. phi_power p x = fpow (np_abs (log_term p x)) (Fin golden_ratio)) \<and>
       (\<forall>x amplification. raw_result p amplification x =
          fadd (fmul (fmul (fmul (alpha p) (fpow (np_abs (log_term p x)) (Fin golden_ratio)))
                           (sign_term p x)) amplification) (beta p))"
  by (simp add: init_def phi_power_def raw_result_def)


lemma np_maximum_below:
  "flt x e \<Longrightarrow> np_maximum x e = e"
  by (cases x; cases e) (simp_all add: np_maximum_def)

lemma clamped_constant:
  assumes "\<forall>x \<in> set data. flt x (epsilon p)"
  shows "transform p data amplification =
         replicate (length data) (edge_case p (raw_result p amplification (epsilon p)))"
proof -
  have e: "np_maximum (epsilon p) (epsilon p) = epsilon p" if "x \<in> set data" for x
    using assms that by (cases "epsilon p"; cases x) (auto simp: np_maximum_def)
  have "edge_case p (raw_result p amplification x) =
        edge_case p (raw_result p amplification (epsilon p))" if "x \<in> set data" for x
    using assms that e [OF that]
    by (simp add: raw_result_def phi_power_def sign_term_def log_term_def clamped_def
        np_maximum_below)
  then show ?thesis
    by (simp add: transform_def map_replicate_const [symmetric] cong: map_cong)
qed

lemma ln_two_eps_neg: "ln (2 / 10 ^ 12 :: real) = - ln (5 * 10 ^ 11)"
proof -
  have "(2 / 10 ^ 12 :: real) = inverse (5 * 10 ^ 11)" by simp
  then show ?thesis by (simp only: ln_inverse)
qed

lemma ln_big_pos: "0 < ln (5 * 10 ^ 11 :: real)"
  by simp

lemma golden_ratio_le2: "golden_ratio \<le> 2"
proof -
  have "sqrt 5 \<le> 3" by (rule real_le_lsqrt) simp_all
  then show ?thesis by (simp add: golden_ratio_def)
qed

lemma ln_big_bounds: "1 \<le> ln (5 * 10 ^ 11 :: real)" "ln (5 * 10 ^ 11 :: real) \<le> 10 ^ 12"
proof -
  have "exp (1::real) \<le> 1 + 1 + 1\<^sup>2" by (rule exp_bound) simp_all
  then have "exp (1::real) \<le> 5 * 10 ^ 11" by simp
  then show "1 \<le> ln (5 * 10 ^ 11 :: real)" by (subst ln_ge_iff) simp_all
  have "ln (5 * 10 ^ 11 :: real) \<le> 5 * 10 ^ 11 - 1" by (rule ln_le_minus_one) simp
  then show "ln (5 * 10 ^ 11 :: real) \<le> 10 ^ 12" by simp
qed

lemma power_term_bounds:
  "0 < ln (5 * 10 ^ 11) powr golden_ratio" "ln (5 * 10 ^ 11) powr golden_ratio \<le> 10 ^ 24"
proof -
  let ?L = "ln (5 * 10 ^ 11 :: real)"
  show "0 < ?L powr golden_ratio" using ln_big_pos by simp
  have "?L powr golden_ratio \<le> ?L powr 2"
    using golden_ratio_le2 ln_big_bounds(1) by (rule powr_mono)
  also have "\<dots> = ?L ^ 2" using ln_big_bounds(1) by simp
  also have "\<dots> \<le> (10 ^ 12) ^ 2"
    using ln_big_bounds by (intro power_mono) simp_all
  finally show "?L powr golden_ratio \<le> 10 ^ 24" by simp
qed

lemma raw_result_at_epsilon:
  "raw_result default_fht (Fin 1) (epsilon default_fht) =
   Fin (1 - golden_ratio * (ln (5 * 10 ^ 11) powr golden_ratio))"
proof -
  let ?A = "ln (5 * 10 ^ 11) powr golden_ratio"
  have lt: "log_term default_fht (epsilon default_fht) = Fin (- ln (5 * 10 ^ 11))"
    using ln_two_eps_neg
    by (simp add: log_term_def clamped_def default_fht_def np_maximum_def fin_small)
  have g: "golden_ratio \<noteq> 0" using golden_ratio_pos by simp
  have big: "(10::real) ^ 25 \<le> 2 ^ 1000" by simp
  have A: "\<bar>?A\<bar> \<le> 2 ^ 1000" using power_term_bounds big by simp
  have gA: "0 \<le> golden_ratio * ?A" "golden_ratio * ?A \<le> 2 * 10 ^ 24"
  proof -
    show "0 \<le> golden_ratio * ?A" using golden_ratio_pos by simp
    show "golden_ratio * ?A \<le> 2 * 10 ^ 24"
      using golden_ratio_le2 power_term_bounds(2) golden_ratio_pos
      by (intro mult_mono) simp_all
  qed
  then have gA': "\<bar>golden_ratio * ?A\<bar> \<le> 2 ^ 1000" "\<bar>1 - golden_ratio * ?A\<bar> \<le> 2 ^ 1000"
    using big by simp_all
  have pp: "phi_power default_fht (epsilon default_fht) = Fin ?A"
    unfolding phi_power_def lt using ln_big_pos g A
    by (simp add: fpow_def pow_fin_def default_fht_def fin_small)
  have sg: "sign_term default_fht (epsilon default_fht) = Fin (- 1)"
    unfolding sign_term_def lt using ln_big_pos by simp
  show ?thesis
    unfolding raw_result_def pp sg using gA'
    by (simp add: default_fht_def fin_small)
qed

text \<open>
  Claim C2, amended. With the default parameters and amplification 1.0, a dataset whose
  values are all below \<open>epsilon\<close> is mapped to a constant sequence; the constant is
  \<open>1 - phi * (ln (5 * 10 ^ 11)) ** phi\<close>, the transform of \<open>epsilon\<close> itself (the
  clamped value plus \<open>epsilon\<close> is \<open>2 * epsilon\<close>, whose logarithm is not zero), and it
  differs from \<open>beta\<close>.
\<close>
theorem below_epsilon_constant:
  assumes "\<forall>x \<in> set data. flt x (epsilon default_fht)"
  shows "transform default_fht data (Fin 1) =
         replicate (length data) (Fin (1 - golden_ratio * (ln (5 * 10 ^ 11) powr golden_ratio)))
       \<and> Fin (1 - golden_ratio * (ln (5 * 10 ^ 11) powr golden_ratio)) \<noteq> beta default_fht"
proof -
  have "golden_ratio * (ln (5 * 10 ^ 11) powr golden_ratio) \<noteq> 0"
    using golden_ratio_pos ln_big_pos by simp
  then show ?thesis
    using clamped_constant [OF assms, of "Fin 1"]
    by (simp add: raw_result_at_epsilon edge_case_def) (simp add: default_fht_def)
qed

theorem below_epsilon_constant_witness:
  "flt (Fin 0) (epsilon default_fht) \<and> flt (Fin (- 3)) (epsilon default_fht) \<and>
   flt NInf (epsilon default_fht) \<and>
   transform default_fht [Fin 0, Fin (- 3), NInf] (Fin 1) =
     [Fin (1 - golden_ratio * (ln (5 * 10 ^ 11) powr golden_ratio)),
      Fin (1 - golden_ratio * (ln (5 * 10 ^ 11) powr golden_ratio)),
      Fin (1 - golden_ratio * (ln (5 * 10 ^ 11) powr golden_ratio))]"
proof -
  have h: "\<forall>x \<in> set [Fin 0, Fin (- 3), NInf]. flt x (epsilon default_fht)"
    by (simp add: default_fht_def)
  show ?thesis using h below_epsilon_constant [OF h] by simp
qed

text \<open>
  Claim C2, as stated, fails: the dataset \<open>[0]\<close> lies below \<open>epsilon\<close> and its
  transform is not \<open>[beta]\<close>.
\<close>
theorem below_epsilon_is_beta_counterexample:
  "flt (Fin 0) (epsilon default_fht) \<and>
   transform default_fht [Fin 0] (Fin 1) \<noteq> [beta default_fht]"
proof -
  have h: "\<forall>x \<in> set [Fin 0]. flt x (epsilon default_fht)"
    by (simp add: default_fht_def)
  have "golden_ratio * (ln (5 * 10 ^ 11) powr golden_ratio) \<noteq> 0"
    using golden_ratio_pos ln_big_pos by simp
  then show ?thesis
    using h clamped_constant [OF h, of "Fin 1"]
    by (simp add: raw_result_at_epsilon edge_case_def) (simp add: default_fht_def)
qed

text \<open>
  Claim C7, as stated, fails: the constructor returns an instance for \<open>epsilon = -1\<close>
  and for \<open>epsilon = 0\<close>, and a transform is then computed with it.
\<close>
theorem init_rejects_bad_epsilon_counterexample:
  "init None (Fin 1) (Fin (- 1)) = Inr (default_fht\<lparr>epsilon := Fin (- 1)\<rparr>) \<and>
   init None (Fin 1) (Fin 0) = Inr (default_fht\<lparr>epsilon := Fin 0\<rparr>) \<and>
   transform (default_fht\<lparr>epsilon := Fin 0\<rparr>) [Fin 0] (Fin 1) = [Fin 1]"
  using golden_ratio_pos
  by (simp add: init_def default_fht_def transform_def raw_result_def edge_case_def
      phi_power_def sign_term_def log_term_def clamped_def np_maximum_def fpow_def
      inf_of_sign_def fin_small)

text \<open>
  Claim C7, amended. The constructor never fails: for all arguments it returns an
  instance that stores \<open>beta\<close> and \<open>epsilon\<close> as given, and \<open>alpha\<close> as given or
  the golden ratio when it is absent.
\<close>
theorem init_never_fails:
  "\<exists>p. init alpha_arg beta_arg epsilon_arg = Inr p \<and>
       alpha p = (case alpha_arg of Some a \<Rightarrow> a | None \<Rightarrow> Fin golden_ratio) \<and>
       beta p = beta_arg \<and> epsilon p = epsilon_arg"
  by (simp add: init_def)

section \<open>The score calculator: proofs\<close>









lemma score_returns:
  "length original = length transformed \<Longrightarrow>
   \<exists>m. calculate_consciousness_score p original transformed = Inr m"
  by (simp add: calculate_consciousness_score_def np_corrcoef_def Let_def)





lemma ln_three_bounds: "1 < ln (3 + 1 / 10 ^ 12 :: real)" "ln (3 + 1 / 10 ^ 12 :: real) \<le> 3"
proof -
  have "exp (1::real) \<le> 1 + 1 + 1\<^sup>2" by (rule exp_bound) simp_all
  then have "exp (1::real) < 3 + 1 / 10 ^ 12" by simp
  then have "ln (exp (1::real)) < ln (3 + 1 / 10 ^ 12)"
    by (subst ln_less_cancel_iff) simp_all
  then show "1 < ln (3 + 1 / 10 ^ 12 :: real)" by simp
  have "ln (3 + 1 / 10 ^ 12 :: real) \<le> 3 + 1 / 10 ^ 12 - 1" by (rule ln_le_minus_one) simp
  then show "ln (3 + 1 / 10 ^ 12 :: real) \<le> 3" by simp
qed

lemma transform_three:
  "\<exists>t. \<bar>t\<bar> \<le> 100 \<and> transform default_fht [Fin 3, Fin 3] (Fin 1) = [Fin t, Fin t]"
proof -
  let ?L = "ln (3 + 1 / 10 ^ 12 :: real)"
  let ?A = "?L powr golden_ratio"
  have L: "0 < ?L" "?L \<noteq> 1" "1 \<le> ?L" using ln_three_bounds by simp_all
  have "?A \<le> ?L powr 2" using golden_ratio_le2 L(3) by (rule powr_mono)
  also have "\<dots> = ?L ^ 2" using L(1) by simp
  also have "\<dots> \<le> 3 ^ 2" using ln_three_bounds L(1) by (intro power_mono) simp_all
  finally have A9: "?A \<le> 9" by simp
  have A0: "0 \<le> ?A" by simp
  have gA: "0 \<le> golden_ratio * ?A" "golden_ratio * ?A \<le> 2 * 9"
  proof -
    show "0 \<le> golden_ratio * ?A" using golden_ratio_pos by simp
    show "golden_ratio * ?A \<le> 2 * 9"
      using golden_ratio_le2 A9 golden_ratio_pos by (intro mult_mono) simp_all
  qed
  have big: "(100::real) \<le> 2 ^ 1000" by simp
  have lt: "log_term default_fht (Fin 3) = Fin ?L"
    by (simp add: log_term_def clamped_def default_fht_def np_maximum_def fin_small)
  have g: "golden_ratio \<noteq> 0" using golden_ratio_pos by simp
  have pp: "phi_power default_fht (Fin 3) = Fin ?A"
    unfolding phi_power_def lt using L g A9 big
    by (simp add: fpow_def pow_fin_def default_fht_def fin_small)
  have sg: "sign_term default_fht (Fin 3) = Fin 1"
    unfolding sign_term_def lt using L(1) by simp
  have small: "\<bar>golden_ratio * ?A\<bar> \<le> 2 ^ 1000" "\<bar>golden_ratio * ?A + 1\<bar> \<le> 2 ^ 1000"
    using gA big by simp_all
  have "raw_result default_fht (Fin 1) (Fin 3) = Fin (golden_ratio * ?A + 1)"
    unfolding raw_result_def pp sg using small by (simp add: default_fht_def fin_small)
  then have "transform default_fht [Fin 3, Fin 3] (Fin 1) =
             [Fin (golden_ratio * ?A + 1), Fin (golden_ratio * ?A + 1)]"
    by (simp add: transform_def edge_case_def)
  moreover have "\<bar>golden_ratio * ?A + 1\<bar> \<le> 100" using gA by simp
  ultimately show ?thesis by blast
qed

lemma corrcoef_constant_pair:
  assumes "\<bar>a\<bar> \<le> 100" "\<bar>b\<bar> \<le> 100"
  shows "np_corrcoef [Fin a, Fin a] [Fin b, Fin b] = Inr NaN"
proof -
  have big: "(200::real) \<le> 2 ^ 1000" by simp
  have m: "np_mean [Fin x, Fin x] = Fin x" if "\<bar>x\<bar> \<le> 100" for x
  proof -
    have "\<bar>x + x\<bar> \<le> 2 ^ 1000" "\<bar>x\<bar> \<le> 2 ^ 1000" using that big by simp_all
    then show ?thesis by (simp add: np_mean_def np_sum_def fin_small)
  qed
  show ?thesis
    unfolding np_corrcoef_def Let_def m [OF assms(1)] m [OF assms(2)]
    by (simp add: fsub_def np_dot_def np_sum_def fin_small np_clip_def np_maximum_def
        np_minimum_def)
qed

text \<open>
  Claim C5 against the code. For the dataset \<open>[3, 3]\<close>, of length 2, and its transform,
  the score calculation returns NaN in the \<open>correlation\<close> field, where the claim has a
  number in \<open>[-1, 1]\<close>: both sequences are constant, their deviations from the mean are
  0 and \<open>np.corrcoef\<close> divides 0 by 0. The code guards the length (\<open>len(original) > 1\<close>)
  but not the zero variance.
\<close>

theorem correlation_nan_on_constant_data:
  "1 < length [Fin 3, Fin 3 :: fval] \<and>
   map_sum id correlation
     (calculate_consciousness_score default_fht [Fin 3, Fin 3]
        (transform default_fht [Fin 3, Fin 3] (Fin 1))) = Inr NaN"
proof -
  obtain t where t: "\<bar>t\<bar> \<le> 100" "transform default_fht [Fin 3, Fin 3] (Fin 1) = [Fin t, Fin t]"
    using transform_three by blast
  have "np_corrcoef [Fin 3, Fin 3] [Fin t, Fin t] = Inr NaN"
    by (rule corrcoef_constant_pair) (use t(1) in simp_all)
  then show ?thesis
    unfolding t(2) by (simp add: calculate_consciousness_score_def Let_def)
qed

section \<open>The validation suite: proofs\<close>



lemma fib_inv_step:
  assumes "fib_inv fib"
  shows "fib_inv (fib @ [fib ! (length fib - 1) + fib ! (length fib - 2)])"
proof -
  let ?n = "length fib"
  let ?new = "fib ! (?n - 1) + fib ! (?n - 2)"
  from assms have n: "2 \<le> ?n"
    and g: "\<And>i. i < ?n \<Longrightarrow> 2 ^ (i div 2) \<le> fib ! i"
    and m: "\<And>i. Suc i < ?n \<Longrightarrow> fib ! i \<le> fib ! Suc i"
    by (auto simp: fib_inv_def)
  have a: "(2::int) ^ ((?n - 2) div 2) \<le> fib ! (?n - 2)" using g [of "?n - 2"] n by simp
  have b: "fib ! (?n - 2) \<le> fib ! (?n - 1)"
    using m [of "?n - 2"] n by (simp add: Suc_diff_Suc numeral_2_eq_2)
  have "?n div 2 = Suc ((?n - 2) div 2)" using n by presburger
  then have "(2::int) ^ (?n div 2) = 2 * 2 ^ ((?n - 2) div 2)" by simp
  then have c: "2 ^ (?n div 2) \<le> ?new" using a b by linarith
  have "(0::int) < 2 ^ ((?n - 2) div 2)" by simp
  with a have "0 < fib ! (?n - 2)" by linarith
  then have d: "fib ! (?n - 1) \<le> ?new" by simp
  show ?thesis
    unfolding fib_inv_def
  proof (intro conjI allI impI)
    show "2 \<le> length (fib @ [?new])" using n by simp
  next
    fix i assume "i < length (fib @ [?new])"
    then show "2 ^ (i div 2) \<le> (fib @ [?new]) ! i"
      using g c by (cases "i < ?n") (auto simp: nth_append less_Suc_eq)
  next
    fix i assume i: "Suc i < length (fib @ [?new])"
    show "(fib @ [?new]) ! i \<le> (fib @ [?new]) ! Suc i"
    proof (cases "Suc i < ?n")
      case True
      then show ?thesis using m [OF True] by (simp add: nth_append)
    next
      case False
      with i have e: "Suc i = ?n" by simp
      then have "i = ?n - 1" by simp
      then show ?thesis using d e by (simp add: nth_append)
    qed
  qed
qed

lemma fib_loop_inv:
  "fib_inv fib \<Longrightarrow> fib_inv (fib_loop sz fib) \<and> length (fib_loop sz fib) = max sz (length fib)"
proof (induction sz fib rule: fib_loop.induct)
  case (1 sz fib)
  show ?case
  proof (cases "length fib < sz")
    case True
    let ?fib' = "fib @ [fib ! (length fib - 1) + fib ! (length fib - 2)]"
    have eq: "fib_loop sz fib = fib_loop sz ?fib'"
      using True by (subst fib_loop.simps) simp
    have "fib_inv (fib_loop sz ?fib') \<and> length (fib_loop sz ?fib') = max sz (length ?fib')"
      using "1.IH" [OF True fib_inv_step [OF "1.prems"]] .
    then show ?thesis unfolding eq using True by simp
  next
    case False
    have eq: "fib_loop sz fib = fib"
      using False by (subst fib_loop.simps) simp
    show ?thesis unfolding eq using False "1.prems" by simp
  qed
qed

lemma fib_inv_init: "fib_inv [1, 1]"
  by (auto simp: fib_inv_def less_Suc_eq)

lemma fibonacci_overflow:
  assumes "2050 \<le> sz"
  shows "generate_synthetic_data env s sz ''fibonacci'' = Inl OverflowError"
proof -
  let ?f = "fib_loop sz [1, 1]"
  have inv: "fib_inv ?f" and len: "length ?f = sz"
    using fib_loop_inv [OF fib_inv_init, of sz] assms by auto
  have "(2::int) ^ 1024 \<le> 2 ^ ((sz - 1) div 2)"
    using assms by (intro power_increasing) auto
  also have "\<dots> \<le> ?f ! (sz - 1)"
    using inv len assms by (auto simp: fib_inv_def)
  finally have "(2::int) ^ 1024 \<le> ?f ! (sz - 1)" .
  moreover have "(0::int) \<le> 2 ^ 970" by (rule zero_le_power) simp
  ultimately have big: "(2::int) ^ 1024 - 2 ^ 970 \<le> \<bar>?f ! (sz - 1)\<bar>" by linarith
  have "?f ! (sz - 1) \<in> set (take sz ?f)" using len assms by simp
  with big have "list_ex (\<lambda>x. 2 ^ 1024 - 2 ^ 970 \<le> \<bar>x\<bar>) (take sz ?f)"
    unfolding list_ex_iff by blast
  then show ?thesis
    by (simp add: generate_synthetic_data_def float_array_def)
qed

lemma validate_cases:
  "(fst (validate_transformation env t0 t1 data s) = Inr r \<longrightarrow>
      snd (validate_transformation env t0 t1 data s) = s\<lparr>results := results s @ [r]\<rparr>) \<and>
   (fst (validate_transformation env t0 t1 data s) = Inl e \<longrightarrow>
      snd (validate_transformation env t0 t1 data s) = s)"
  by (auto simp: validate_transformation_def Let_def split: sum.splits prod.splits)

lemma validate_fails_indep:
  "fht_inst s = fht_inst s' \<Longrightarrow>
   isl (fst (validate_transformation env t0 t1 data s)) =
   isl (fst (validate_transformation env t0' t1' data s'))"
  by (simp add: validate_transformation_def Let_def split: sum.splits prod.splits)

lemma validate_empty_fails: "isl (fst (validate_transformation env t0 t1 [] s))"
  by (simp add: validate_transformation_def Let_def np_min_def split: sum.splits prod.splits)

lemma validate_succeeds:
  assumes "pearsonr env data (transform (fht_inst s) data (Fin 1)) = Inr a"
    and "spearmanr env data (transform (fht_inst s) data (Fin 1)) = Inr b"
    and "ks_2samp env data (transform (fht_inst s) data (Fin 1)) = Inr c"
    and "data \<noteq> []"
  shows "\<not> isl (fst (validate_transformation env t0 t1 data s))"
proof -
  have "length data = length (transform (fht_inst s) data (Fin 1))"
    by (simp add: transform_def)
  then obtain m where
    "calculate_consciousness_score (fht_inst s) data (transform (fht_inst s) data (Fin 1)) = Inr m"
    using score_returns by blast
  then show ?thesis
    using assms
    by (cases data) (simp_all add: validate_transformation_def Let_def np_min_def np_max_def
        split: prod.splits)
qed

lemma generate_indep:
  "fht_inst s = fht_inst s' \<Longrightarrow>
   generate_synthetic_data env s sz pattern = generate_synthetic_data env s' sz pattern"
  by (simp add: generate_synthetic_data_def)

lemma pair_fails_indep:
  "fht_inst s = fht_inst s' \<Longrightarrow> pair_fails env s sz pattern = pair_fails env s' sz pattern"
  unfolding pair_fails_def
  using generate_indep [of s s' env sz pattern]
    validate_fails_indep [where s = s and s' = s' and env = env and ?t0.0 = "Fin 0"
      and ?t1.0 = "Fin 0" and t0' = "Fin 0" and t1' = "Fin 0"]
  by (auto split: sum.splits)

lemma sizes_loop_fail_step:
  assumes "pair_fails env s sz p"
  shows "\<exists>e. sizes_loop env p (sz # rest) acc k s = (Inl e, s)"
proof (cases "generate_synthetic_data env s sz p")
  case (Inl e)
  then show ?thesis by simp
next
  case (Inr data)
  let ?v = "validate_transformation env (time_reading env k) (time_reading env (k + 1)) data s"
  have "isl (fst (validate_transformation env (Fin 0) (Fin 0) data s))"
    using assms Inr by (simp add: pair_fails_def)
  then have "isl (fst ?v)"
    using validate_fails_indep [where s = s and s' = s and env = env and data = data
        and ?t0.0 = "Fin 0" and ?t1.0 = "Fin 0" and t0' = "time_reading env k"
        and t1' = "time_reading env (k + 1)"] by simp
  then obtain e where e: "fst ?v = Inl e" by (cases "fst ?v") simp_all
  then have "snd ?v = s" using validate_cases [of env _ _ data s _ e] by simp
  with e have "?v = (Inl e, s)" by (metis prod.collapse)
  then show ?thesis using Inr by simp
qed

lemma sizes_loop_ok_step:
  assumes "\<not> pair_fails env s sz p"
  shows "\<exists>r. size_key r = Some sz \<and> pattern_key r = Some p \<and>
           sizes_loop env p (sz # rest) acc k s =
           sizes_loop env p rest (acc @ [r]) (k + 2) (s\<lparr>results := results s @ [r]\<rparr>)"
proof -
  from assms obtain data where d: "generate_synthetic_data env s sz p = Inr data"
    by (cases "generate_synthetic_data env s sz p") (simp_all add: pair_fails_def)
  let ?v = "validate_transformation env (time_reading env k) (time_reading env (k + 1)) data s"
  have "\<not> isl (fst (validate_transformation env (Fin 0) (Fin 0) data s))"
    using assms d by (simp add: pair_fails_def)
  then have "\<not> isl (fst ?v)"
    using validate_fails_indep [where s = s and s' = s and env = env and data = data
        and ?t0.0 = "Fin 0" and ?t1.0 = "Fin 0" and t0' = "time_reading env k"
        and t1' = "time_reading env (k + 1)"] by simp
  then obtain r where r: "fst ?v = Inr r" by (cases "fst ?v") simp_all
  then have "snd ?v = s\<lparr>results := results s @ [r]\<rparr>"
    using validate_cases [of env _ _ data s r] by simp
  with r have v: "?v = (Inr r, s\<lparr>results := results s @ [r]\<rparr>)" by (metis prod.collapse)
  let ?t = "r\<lparr>pattern_key := Some p, size_key := Some sz\<rparr>"
  have "sizes_loop env p (sz # rest) acc k s =
        sizes_loop env p rest (acc @ [?t]) (k + 2) (s\<lparr>results := results s @ [?t]\<rparr>)"
    using d v by (simp add: Let_def)
  then show ?thesis by (intro exI [of _ ?t]) simp
qed

lemma sizes_loop_fail:
  "\<exists>sz \<in> set sizes. pair_fails env s sz p \<Longrightarrow> isl (fst (sizes_loop env p sizes acc k s))"
proof (induction sizes arbitrary: acc k s)
  case Nil
  then show ?case by simp
next
  case (Cons a sizes)
  show ?case
  proof (cases "pair_fails env s a p")
    case True
    then show ?thesis
      using sizes_loop_fail_step [OF True, of sizes acc k] by (auto simp del: sizes_loop.simps)
  next
    case False
    from sizes_loop_ok_step [OF False, of sizes acc k]
    obtain r where r: "sizes_loop env p (a # sizes) acc k s =
        sizes_loop env p sizes (acc @ [r]) (k + 2) (s\<lparr>results := results s @ [r]\<rparr>)"
      by blast
    from Cons.prems False obtain sz where "sz \<in> set sizes" "pair_fails env s sz p" by auto
    then have "\<exists>sz \<in> set sizes. pair_fails env (s\<lparr>results := results s @ [r]\<rparr>) sz p"
      using pair_fails_indep [of s "s\<lparr>results := results s @ [r]\<rparr>" env] by auto
    then show ?thesis unfolding r by (rule Cons.IH)
  qed
qed

lemma sizes_loop_ok:
  "\<forall>sz \<in> set sizes. \<not> pair_fails env s sz p \<Longrightarrow>
   \<exists>rs k'. sizes_loop env p sizes acc k s =
             (Inr (acc @ rs, k'), s\<lparr>results := results s @ rs\<rparr>) \<and>
           map size_key rs = map Some sizes \<and> (\<forall>r \<in> set rs. pattern_key r = Some p)"
proof (induction sizes arbitrary: acc k s)
  case Nil
  then show ?case by simp
next
  case (Cons a sizes)
  then have "\<not> pair_fails env s a p" by simp
  from sizes_loop_ok_step [OF this, of sizes acc k]
  obtain r where r: "size_key r = Some a" "pattern_key r = Some p"
    "sizes_loop env p (a # sizes) acc k s =
        sizes_loop env p sizes (acc @ [r]) (k + 2) (s\<lparr>results := results s @ [r]\<rparr>)"
    by blast
  let ?s1 = "s\<lparr>results := results s @ [r]\<rparr>"
  have "\<forall>sz \<in> set sizes. \<not> pair_fails env ?s1 sz p"
    using Cons.prems pair_fails_indep [of s ?s1 env] by auto
  from Cons.IH [OF this, of "acc @ [r]" "k + 2"]
  obtain rs k' where rs: "sizes_loop env p sizes (acc @ [r]) (k + 2) ?s1 =
      (Inr ((acc @ [r]) @ rs, k'), ?s1\<lparr>results := results ?s1 @ rs\<rparr>)"
    "map size_key rs = map Some sizes" "\<forall>r \<in> set rs. pattern_key r = Some p"
    by blast
  show ?case
    by (intro exI [of _ "r # rs"] exI [of _ k']) (use r rs in \<open>simp del: sizes_loop.simps\<close>)
qed

lemma patterns_loop_fail:
  "\<exists>p \<in> set ps. \<exists>sz \<in> set sizes. pair_fails env s sz p \<Longrightarrow>
   isl (fst (patterns_loop env ps sizes acc k s))"
proof (induction ps arbitrary: acc k s)
  case Nil
  then show ?case by simp
next
  case (Cons p ps)
  show ?case
  proof (cases "\<exists>sz \<in> set sizes. pair_fails env s sz p")
    case True
    then have "isl (fst (sizes_loop env p sizes [] k s))" by (rule sizes_loop_fail)
    then obtain e s' where "sizes_loop env p sizes [] k s = (Inl e, s')"
      by (cases "sizes_loop env p sizes [] k s"; cases "fst (sizes_loop env p sizes [] k s)")
        simp_all
    then show ?thesis by simp
  next
    case False
    then have "\<forall>sz \<in> set sizes. \<not> pair_fails env s sz p" by simp
    from sizes_loop_ok [OF this, of "[]" k]
    obtain rs k' where rs: "sizes_loop env p sizes [] k s =
        (Inr (rs, k'), s\<lparr>results := results s @ rs\<rparr>)" by auto
    let ?s1 = "s\<lparr>results := results s @ rs\<rparr>"
    from Cons.prems False
    obtain q sz where "q \<in> set ps" "sz \<in> set sizes" "pair_fails env s sz q" by auto
    then have "\<exists>q \<in> set ps. \<exists>sz \<in> set sizes. pair_fails env ?s1 sz q"
      using pair_fails_indep [of s ?s1 env] by auto
    from Cons.IH [OF this, of "acc @ [(p, rs)]" k'] show ?thesis
      using rs by simp
  qed
qed

lemma patterns_loop_ok:
  "\<forall>p \<in> set ps. \<forall>sz \<in> set sizes. \<not> pair_fails env s sz p \<Longrightarrow>
   \<exists>res. patterns_loop env ps sizes acc k s =
           (Inr (acc @ res), s\<lparr>results := results s @ concat (map snd res)\<rparr>) \<and>
         map fst res = ps \<and>
         list_all (\<lambda>(p, rs). map size_key rs = map Some sizes \<and>
                     list_all (\<lambda>r. pattern_key r = Some p) rs) res"
proof (induction ps arbitrary: acc k s)
  case Nil
  then show ?case by simp
next
  case (Cons p ps)
  then have "\<forall>sz \<in> set sizes. \<not> pair_fails env s sz p" by simp
  from sizes_loop_ok [OF this, of "[]" k]
  obtain rs k' where rs: "sizes_loop env p sizes [] k s =
      (Inr (rs, k'), s\<lparr>results := results s @ rs\<rparr>)"
    "map size_key rs = map Some sizes" "\<forall>r \<in> set rs. pattern_key r = Some p" by auto
  let ?s1 = "s\<lparr>results := results s @ rs\<rparr>"
  have "\<forall>q \<in> set ps. \<forall>sz \<in> set sizes. \<not> pair_fails env ?s1 sz q"
    using Cons.prems pair_fails_indep [of s ?s1 env] by auto
  from Cons.IH [OF this, of "acc @ [(p, rs)]" k']
  obtain res where res: "patterns_loop env ps sizes (acc @ [(p, rs)]) k' ?s1 =
      (Inr ((acc @ [(p, rs)]) @ res), ?s1\<lparr>results := results ?s1 @ concat (map snd res)\<rparr>)"
    "map fst res = ps"
    "list_all (\<lambda>(p, rs). map size_key rs = map Some sizes \<and>
                     list_all (\<lambda>r. pattern_key r = Some p) rs) res"
    by blast
  show ?case
    by (intro exI [of _ "(p, rs) # res"]) (use rs res in \<open>simp add: list_all_iff\<close>)
qed

lemma run_fails:
  assumes "\<exists>p \<in> set patterns.
             \<exists>sz \<in> set (case sizes of None \<Rightarrow> [1000, 10000, 100000] | Some ss \<Rightarrow> ss).
               pair_fails env s sz p"
  shows "isl (fst (run_comprehensive_validation env sizes k s))"
  unfolding run_comprehensive_validation_def using assms by (rule patterns_loop_fail)

lemma run_ok:
  assumes "\<forall>p \<in> set patterns.
             \<forall>sz \<in> set (case sizes of None \<Rightarrow> [1000, 10000, 100000] | Some ss \<Rightarrow> ss).
               \<not> pair_fails env s sz p"
  shows "\<exists>res. run_comprehensive_validation env sizes k s =
           (Inr res, s\<lparr>results := results s @ concat (map snd res)\<rparr>) \<and>
         map fst res = patterns \<and>
         list_all (\<lambda>(p, rs). map size_key rs =
                       map Some (case sizes of None \<Rightarrow> [1000, 10000, 100000] | Some ss \<Rightarrow> ss) \<and>
                     list_all (\<lambda>r. pattern_key r = Some p) rs) res"
  unfolding run_comprehensive_validation_def
  using patterns_loop_ok [OF assms, of "[]" k] by simp

lemma sample_validate_ok:
  assumes "2 \<le> length data"
  shows "\<not> isl (fst (validate_transformation sample_env t0 t1 data s))"
proof (rule validate_succeeds)
  show "pearsonr sample_env data (transform (fht_inst s) data (Fin 1)) = Inr (Fin 0, Fin 1)"
    using assms by (simp add: sample_env_def)
  show "spearmanr sample_env data (transform (fht_inst s) data (Fin 1)) = Inr (Fin 0, Fin 1)"
    by (simp add: sample_env_def)
  show "ks_2samp sample_env data (transform (fht_inst s) data (Fin 1)) = Inr (Fin 1, Fin 0)"
    using assms by (auto simp: sample_env_def transform_def)
  show "data \<noteq> []" using assms by auto
qed

lemma sample_validate_short:
  assumes "length data < 2"
  shows "validate_transformation sample_env t0 t1 data s = (Inl ValueError, s)"
proof -
  have "length data = length (transform (fht_inst s) data (Fin 1))"
    by (simp add: transform_def)
  then obtain m where
    "calculate_consciousness_score (fht_inst s) data (transform (fht_inst s) data (Fin 1)) = Inr m"
    using score_returns by blast
  then show ?thesis
    using assms by (simp add: validate_transformation_def Let_def sample_env_def)
qed

lemma sample_pair_ok:
  "generate_synthetic_data sample_env s sz p = Inr data \<Longrightarrow> 2 \<le> length data \<Longrightarrow>
   \<not> pair_fails sample_env s sz p"
  by (simp add: pair_fails_def sample_validate_ok)

lemma floor_sqrt_20: "\<lfloor>sqrt 20\<rfloor> = 4"
proof -
  have "4 \<le> sqrt 20" by (rule real_le_rsqrt) simp
  moreover have "sqrt 20 < 5" by (rule real_less_lsqrt) simp_all
  ultimately show ?thesis by (simp add: floor_unique)
qed

lemma upt_2_5: "[2..<5] = [2, 3, 4]"
  by (simp add: upt_rec)

lemma generate_primes_4: "generate_primes 4 = [2, 3, 5, 7]"
  unfolding generate_primes_def upper_bound_def
  apply (simp add: floor_sqrt_20 Let_def upt_2_5 py_range_def)
  apply (simp add: upt_rec eval_nat_numeral)
  done

lemma fib_loop_2: "fib_loop 2 [1, 1] = [1, 1]"
  by (subst fib_loop.simps) simp

lemma sample_fibonacci_2: "\<not> pair_fails sample_env s 2 ''fibonacci''"
proof (rule sample_pair_ok)
  show "generate_synthetic_data sample_env s 2 ''fibonacci'' = Inr [Fin 1, Fin 1]"
    by (simp add: generate_synthetic_data_def fib_loop_2 float_array_def)
qed simp

lemma sample_golden_ratio_2: "\<not> pair_fails sample_env s 2 ''golden_ratio''"
proof (rule sample_pair_ok)
  show "generate_synthetic_data sample_env s 2 ''golden_ratio'' =
        Inr (map (\<lambda>i. fpow (phi (fht_inst s)) (Fin (real i))) [0..<2])"
    by (simp add: generate_synthetic_data_def)
qed simp

lemma sample_prime_modulo_2: "\<not> pair_fails sample_env s 2 ''prime_modulo''"
proof (rule sample_pair_ok)
  show "generate_synthetic_data sample_env s 2 ''prime_modulo'' = Inr [Fin 2, Fin 3]"
    by (simp add: generate_synthetic_data_def generate_primes_4)
qed simp

lemma sample_random_2: "\<not> pair_fails sample_env s 2 ''random''"
proof (rule sample_pair_ok)
  show "generate_synthetic_data sample_env s 2 ''random'' = Inr (replicate 2 (Fin 50))"
    by (simp add: generate_synthetic_data_def sample_env_def)
qed simp

lemma fibonacci_pair_fails: "2050 \<le> sz \<Longrightarrow> pair_fails env s sz ''fibonacci''"
  by (simp add: pair_fails_def fibonacci_overflow)

text \<open>
  Claim C8, amended. A call of \<open>validate_transformation\<close> that returns appends exactly
  the record it returns to the end of \<open>results\<close> and changes nothing else of the suite:
  the records stored before keep their values and their order, and the transform
  instance is unchanged. A call that raises leaves the suite as it was, with no record
  appended; a call on an empty dataset always raises.
\<close>

theorem validate_appends_one_record:
  "(\<forall>r. fst (validate_transformation env t0 t1 data s) = Inr r \<longrightarrow>
      snd (validate_transformation env t0 t1 data s) = s\<lparr>results := results s @ [r]\<rparr>) \<and>
   (\<forall>e. fst (validate_transformation env t0 t1 data s) = Inl e \<longrightarrow>
      snd (validate_transformation env t0 t1 data s) = s) \<and>
   isl (fst (validate_transformation env t0 t1 [] s))"
  using validate_cases [of env t0 t1 data s] validate_empty_fails [of env t0 t1 s] by blast

theorem validate_appends_one_record_witness:
  "\<not> isl (fst (validate_transformation sample_env (Fin 0) (Fin 1) [Fin 1, Fin 2] new_suite)) \<and>
   snd (validate_transformation sample_env (Fin 0) (Fin 1) [Fin 1, Fin 2] new_suite) =
     new_suite\<lparr>results := results new_suite @
       [projr (fst (validate_transformation sample_env (Fin 0) (Fin 1) [Fin 1, Fin 2] new_suite))]\<rparr> \<and>
   fst (validate_transformation sample_env (Fin 0) (Fin 1) [Fin 5] new_suite) = Inl ValueError \<and>
   snd (validate_transformation sample_env (Fin 0) (Fin 1) [Fin 5] new_suite) = new_suite"
proof -
  let ?v = "validate_transformation sample_env (Fin 0) (Fin 1) [Fin 1, Fin 2] new_suite"
  let ?w = "validate_transformation sample_env (Fin 0) (Fin 1) [Fin 5] new_suite"
  have a: "\<not> isl (fst ?v)" by (rule sample_validate_ok) simp
  then have b: "fst ?v = Inr (projr (fst ?v))" by (cases "fst ?v") simp_all
  have c: "fst ?w = Inl ValueError" by (simp add: sample_validate_short)
  from validate_appends_one_record [of sample_env "Fin 0" "Fin 1" "[Fin 1, Fin 2]" new_suite] b
  have "snd ?v = new_suite\<lparr>results := results new_suite @ [projr (fst ?v)]\<rparr>" by blast
  moreover
  from validate_appends_one_record [of sample_env "Fin 0" "Fin 1" "[Fin 5]" new_suite] c
  have "snd ?w = new_suite" by blast
  ultimately show ?thesis using a c by blast
qed

text \<open>
  Claim C8, as stated, fails: a call on the one-point dataset \<open>[5]\<close> raises
  \<open>ValueError\<close> (the Pearson test needs two points) and a call on the empty dataset
  raises too; neither appends a record.
\<close>

theorem validate_always_appends_counterexample:
  "validate_transformation sample_env (Fin 0) (Fin 1) [Fin 5] new_suite =
     (Inl ValueError, new_suite) \<and>
   validate_transformation sample_env (Fin 0) (Fin 1) [] new_suite =
     (Inl ValueError, new_suite) \<and>
   results new_suite = []"
  by (simp add: sample_validate_short) (simp add: new_suite_def)

lemma run_aborts_on_failure:
  "((\<exists>p \<in> set patterns.
       \<exists>sz \<in> set (case sizes of None \<Rightarrow> [1000, 10000, 100000] | Some ss \<Rightarrow> ss).
         pair_fails env s sz p)
      \<longrightarrow> isl (fst (run_comprehensive_validation env sizes k s))) \<and>
   ((\<forall>p \<in> set patterns.
       \<forall>sz \<in> set (case sizes of None \<Rightarrow> [1000, 10000, 100000] | Some ss \<Rightarrow> ss).
         \<not> pair_fails env s sz p)
      \<longrightarrow> (\<exists>res. run_comprehensive_validation env sizes k s =
             (Inr res, s\<lparr>results := results s @ concat (map snd res)\<rparr>) \<and>
           map fst res = patterns \<and>
           list_all (\<lambda>(p, rs). map size_key rs =
                         map Some (case sizes of None \<Rightarrow> [1000, 10000, 100000] | Some ss \<Rightarrow> ss) \<and>
                       list_all (\<lambda>r. pattern_key r = Some p) rs) res))"
  using run_fails [of sizes env s k] run_ok [of sizes env s k] by blast

lemma default_run_aborts: "isl (fst (run_comprehensive_validation env None k s))"
proof (rule run_fails)
  have "pair_fails env s 10000 ''fibonacci''" by (rule fibonacci_pair_fails) simp
  then show "\<exists>p \<in> set patterns.
       \<exists>sz \<in> set (case None of None \<Rightarrow> [1000, 10000, 100000] | Some ss \<Rightarrow> ss).
         pair_fails env s sz p"
    by (auto simp: patterns_def)
qed

text \<open>
  Claim C6 against the code. \<open>run_comprehensive_validation\<close> has no \<open>try\<close>: with the
  sizes \<open>[2050, 2]\<close> the generation of the first pair, Fibonacci numbers of size 2050,
  raises \<open>OverflowError\<close> (the numbers exceed the range of \<open>float64\<close>), the run ends with
  this error and returns no suite result, and no record is produced for the pair
  (fibonacci, 2) or any later pair, although (fibonacci, 2) does not fail by itself. The
  run with the default sizes \<open>[1000, 10000, 100000]\<close> ends with an error too, at the
  latest at the pair (fibonacci, 10000).
\<close>

theorem run_aborts_at_failing_pair:
  "\<not> pair_fails sample_env new_suite 2 ''fibonacci'' \<and>
   run_comprehensive_validation sample_env (Some [2050, 2]) 0 new_suite =
     (Inl OverflowError, new_suite) \<and>
   results new_suite = [] \<and>
   isl (fst (run_comprehensive_validation sample_env None 0 new_suite))"
proof -
  have "generate_synthetic_data sample_env new_suite 2050 ''fibonacci'' = Inl OverflowError"
    by (rule fibonacci_overflow) simp
  then have "run_comprehensive_validation sample_env (Some [2050, 2]) 0 new_suite =
     (Inl OverflowError, new_suite)"
    by (simp add: run_comprehensive_validation_def patterns_def)
  then show ?thesis
    using sample_fibonacci_2 default_run_aborts [of sample_env 0 new_suite]
    by (simp add: new_suite_def)
qed

end
